theory Spec2Isabelle
  imports Main "HOL-Library.Word"
begin

section \<open>The people service of cmd/main.go\<close>

text \<open>
  The program is five HTTP handlers over one MongoDB collection. The handlers are
  embedded function by function, with the names of the source. What they call in the
  Go standard library and in the MongoDB driver is embedded next to them, each
  definition naming the package it comes from; the behaviour given there is the one the
  packages document (net/http, encoding/json, encoding/hex, mongo-driver's bson,
  primitive and mongo).

  Logging (\<open>log.Println\<close>) writes nothing into the response or the collection and
  is left out. The header \<open>X-Content-Type-Options\<close> that \<open>http.Error\<close> also sets is
  left out as well; \<open>Content-Type\<close> is kept.
\<close>

subsection \<open>Identifiers: primitive.ObjectID\<close>

text \<open>
  \<open>type ObjectID [12]byte\<close>. An identifier is the list of its bytes; the values the
  driver produces have length 12 (\<open>valid_oid\<close>).
\<close>

type_synonym byte = "8 word"
type_synonym ObjectID = "byte list"

definition valid_oid :: "ObjectID \<Rightarrow> bool" where
  "valid_oid oid = (length oid = 12)"

definition NilObjectID :: ObjectID where
  "NilObjectID = replicate 12 0"

definition IsZero :: "ObjectID \<Rightarrow> bool" where
  "IsZero oid = (oid = NilObjectID)"

subsection \<open>Errors\<close>

text \<open>
  The error values that can reach \<open>handleError\<close>:
  \<^item> \<open>ErrInvalidHex\<close>: primitive.ErrInvalidHex, from \<open>ObjectIDFromHex\<close>;
  \<^item> \<open>InvalidByteError\<close>, \<open>ErrLength\<close>: encoding/hex;
  \<^item> \<open>ErrNoDocuments\<close>: mongo.ErrNoDocuments, from \<open>SingleResult.Decode\<close>;
  \<^item> \<open>JSONError\<close>: whatever encoding/json reports for a request body, with its text;
  \<^item> \<open>DriverError\<close>: a failed round trip to the server (connection, timeout, command
    failure), with its text;
  \<^item> \<open>DuplicateKey\<close>, \<open>ImmutableField\<close>: the server's write errors 11000 and 66.
\<close>

datatype error =
    ErrInvalidHex
  | InvalidByteError char
  | ErrLength
  | ErrNoDocuments
  | JSONError string
  | DriverError string
  | DuplicateKey ObjectID
  | ImmutableField

subsection \<open>encoding/hex\<close>

definition hextable :: string where
  "hextable = ''0123456789abcdef''"

definition upperhex :: string where
  "upperhex = ''0123456789ABCDEF''"

text \<open>\<open>hex.EncodeToString\<close>: two lower-case digits for each byte, high nibble first.\<close>

definition hex_byte :: "byte \<Rightarrow> string" where
  "hex_byte b = [hextable ! (unat b div 16), hextable ! (unat b mod 16)]"

definition EncodeToString :: "byte list \<Rightarrow> string" where
  "EncodeToString bs = concat (map hex_byte bs)"

text \<open>\<open>fromHexChar\<close>: the digits, and the letters a to f in either case.\<close>

definition fromHexChar :: "char \<Rightarrow> nat option" where
  "fromHexChar c =
     (let n = (of_char c :: nat) in
      if 48 \<le> n \<and> n \<le> 57 then Some (n - 48)
      else if 97 \<le> n \<and> n \<le> 102 then Some (n - 97 + 10)
      else if 65 \<le> n \<and> n \<le> 70 then Some (n - 65 + 10)
      else None)"

text \<open>
  \<open>hex.Decode\<close>: pair by pair from the left, failing at the first character that is
  not a hexadecimal digit; a last unpaired character is reported after the pairs.
\<close>

fun Decode_hex :: "string \<Rightarrow> error + byte list" where
  "Decode_hex [] = Inr []"
| "Decode_hex [c] =
     (case fromHexChar c of None \<Rightarrow> Inl (InvalidByteError c) | Some _ \<Rightarrow> Inl ErrLength)"
| "Decode_hex (p # q # rest) =
     (case fromHexChar p of
        None \<Rightarrow> Inl (InvalidByteError p)
      | Some a \<Rightarrow>
          (case fromHexChar q of
             None \<Rightarrow> Inl (InvalidByteError q)
           | Some b \<Rightarrow>
               (case Decode_hex rest of
                  Inl e \<Rightarrow> Inl e
                | Inr bs \<Rightarrow> Inr (of_nat (a * 16 + b) # bs))))"

subsection \<open>primitive.ObjectID: Hex and ObjectIDFromHex\<close>

definition Hex :: "ObjectID \<Rightarrow> string" where
  "Hex oid = EncodeToString oid"

text \<open>
  \<open>ObjectIDFromHex\<close>: a string whose length is not 24 is \<open>ErrInvalidHex\<close>; otherwise
  the result of \<open>hex.Decode\<close>.
\<close>

definition ObjectIDFromHex :: "string \<Rightarrow> error + ObjectID" where
  "ObjectIDFromHex s = (if length s \<noteq> 24 then Inl ErrInvalidHex else Decode_hex s)"

subsection \<open>The text of an error: err.Error()\<close>

text \<open>
  \<open>hex.InvalidByteError\<close> prints its byte with the verb \<open>%#U\<close>: \<open>U+0067 'g'\<close>, the
  quoted character only when \<open>strconv.IsPrint\<close> holds, in UTF-8.
\<close>

definition IsPrint :: "nat \<Rightarrow> bool" where
  "IsPrint n = ((32 \<le> n \<and> n < 127) \<or> (161 \<le> n \<and> n \<le> 255 \<and> n \<noteq> 173))"

definition utf8 :: "nat \<Rightarrow> string" where
  "utf8 n = (if n < 128 then [char_of n]
             else [char_of (192 + n div 64), char_of (128 + n mod 64)])"

definition fmt_U :: "char \<Rightarrow> string" where
  "fmt_U c =
     (let n = (of_char c :: nat) in
      ''U+00'' @ [upperhex ! (n div 16), upperhex ! (n mod 16)] @
      (if IsPrint n then '' '' @ [CHR 0x27] @ utf8 n @ [CHR 0x27] else []))"

fun Error :: "error \<Rightarrow> string" where
  "Error ErrInvalidHex = ''the provided hex string is not a valid ObjectID''"
| "Error (InvalidByteError c) = ''encoding/hex: invalid byte: '' @ fmt_U c"
| "Error ErrLength = ''encoding/hex: odd length hex string''"
| "Error ErrNoDocuments = ''mongo: no documents in result''"
| "Error (JSONError msg) = msg"
| "Error (DriverError msg) = msg"
| "Error (DuplicateKey oid) =
     ''write exception: write errors: [E11000 duplicate key error collection: testdb.people index: _id_ dup key: { _id: ObjectId(''
     @ [CHR 0x27] @ Hex oid @ [CHR 0x27] @ '') }]''"
| "Error ImmutableField =
     ''write exception: write errors: [Performing an update on the path '' @ [CHR 0x27] @ ''_id''
     @ [CHR 0x27] @ '' would modify the immutable field '' @ [CHR 0x27] @ ''_id'' @ [CHR 0x27] @ '']''"

subsection \<open>Person\<close>

text \<open>
  \<open>type Person struct\<close>, lines 20 to 25. \<open>Age\<close> is a Go \<open>int\<close>, of 64 bits; the
  program does no arithmetic on it. The tags bind the field \<open>ID\<close> to the JSON
  key \<open>id\<close> and to the BSON key \<open>_id\<close>, the latter left out of a document when
  the identifier is zero (\<open>omitempty\<close>).
\<close>

record Person =
  ID :: ObjectID
  Name :: string
  Age :: "64 word"
  Address :: string

subsection \<open>Request bodies: json.NewDecoder(r.Body).Decode(&person)\<close>

text \<open>
  A request body is either one the decoder rejects for the shape of \<open>Person\<close> (not JSON,
  a value of the wrong type, an \<open>id\<close> that is not an identifier), with the decoder's
  message, or a JSON object. Of an object only the four keys of the tags matter: the
  identifier the key \<open>id\<close> decodes to, \<open>None\<close> when the object has no such key, and
  the values of \<open>name\<close>, \<open>age\<close> and \<open>address\<close>, an absent key leaving the zero value
  of the field. A number that is no \<open>int\<close> is one of the values the decoder rejects.
\<close>

record PersonJSON =
  json_id :: "ObjectID option"
  json_name :: string
  json_age :: "64 word"
  json_address :: string

datatype body = Malformed string | Object PersonJSON

definition Decode_json :: "body \<Rightarrow> error + Person" where
  "Decode_json b =
     (case b of
        Malformed msg \<Rightarrow> Inl (JSONError msg)
      | Object j \<Rightarrow>
          Inr \<lparr>ID = (case json_id j of None \<Rightarrow> NilObjectID | Some oid \<Rightarrow> oid),
               Name = json_name j, Age = json_age j, Address = json_address j\<rparr>)"

text \<open>
  A body whose \<open>id\<close>, if it has one, is a 12-byte identifier, as every identifier
  is that \<open>ObjectID.UnmarshalJSON\<close> accepts.
\<close>

definition valid_body :: "body \<Rightarrow> bool" where
  "valid_body b =
     (case b of
        Malformed _ \<Rightarrow> True
      | Object j \<Rightarrow> (case json_id j of None \<Rightarrow> True | Some oid \<Rightarrow> valid_oid oid))"

subsection \<open>Responses: http.ResponseWriter\<close>

text \<open>
  What a handler has written: the status line (none until \<open>WriteHeader\<close> or the first
  write), the \<open>Content-Type\<close> header and the body. A JSON body is kept as the value that
  was encoded. \<open>json.Encoder.Encode\<close> writes \<open>null\<close> for a nil slice and an array for
  any other slice.
\<close>

datatype payload =
    NoBody
  | Text string
  | JSONNull
  | JSONPerson Person
  | JSONArray "Person list"

record response =
  status :: "nat option"
  content_type :: "string option"
  payload :: payload

definition new_response :: response where
  "new_response = \<lparr>status = None, content_type = None, payload = NoBody\<rparr>"

text \<open>\<open>w.Header().Set("Content-Type", v)\<close>: without effect once the header is sent.\<close>

definition Header_Set_Content_Type :: "string \<Rightarrow> response \<Rightarrow> response" where
  "Header_Set_Content_Type v w = (if status w = None then w\<lparr>content_type := Some v\<rparr> else w)"

text \<open>\<open>w.WriteHeader(code)\<close>: the first call fixes the status.\<close>

definition WriteHeader :: "nat \<Rightarrow> response \<Rightarrow> response" where
  "WriteHeader code w = (if status w = None then w\<lparr>status := Some code\<rparr> else w)"

text \<open>\<open>w.Write\<close>: sends status 200 first when no status was written.\<close>

definition Write :: "payload \<Rightarrow> response \<Rightarrow> response" where
  "Write p w = (WriteHeader 200 w)\<lparr>payload := p\<rparr>"

text \<open>
  \<open>http.Error(w, msg, code)\<close> of net/http: sets \<open>Content-Type\<close> to
  \<open>text/plain; charset=utf-8\<close>, writes the status and then \<open>fmt.Fprintln(w, msg)\<close>, the
  message and a line feed.
\<close>

definition http_Error :: "response \<Rightarrow> string \<Rightarrow> nat \<Rightarrow> response" where
  "http_Error w msg code =
     Write (Text (msg @ [CHR 0x0A]))
       (WriteHeader code (Header_Set_Content_Type ''text/plain; charset=utf-8'' w))"

text \<open>\<open>handleError\<close>, lines 187 to 190.\<close>

definition handleError :: "response \<Rightarrow> error \<Rightarrow> response" where
  "handleError w err = http_Error w (Error err) 500"

subsection \<open>The collection: mongo.Collection\<close>

text \<open>
  The collection \<open>testdb.people\<close> is the list of its documents in natural order. Its
  documents are the ones \<open>CreatePerson\<close> writes: the BSON form of a \<open>Person\<close>, whose
  \<open>_id\<close> is an ObjectID.

  A filter \<open>bson.M{"_id": v}\<close> is given by the value \<open>v\<close>. The server compares
  values with their types: a string never equals an ObjectID, whatever its characters.

  Every call takes \<open>fault\<close>: \<open>Some msg\<close> when the round trip to the server fails with
  that message, in which case the collection is as before. \<open>Find\<close> takes
  \<open>cursor_fault\<close> as well: \<open>Some (n, msg)\<close> when the call itself succeeds and the
  cursor fails with that message after it has handed over \<open>n\<close> documents, a
  later batch not arriving.
\<close>

type_synonym collection = "Person list"

datatype bson_value = BObjectID ObjectID | BString string

definition matches :: "bson_value \<Rightarrow> Person \<Rightarrow> bool" where
  "matches v d = (v = BObjectID (ID d))"

text \<open>
  \<open>mongo.Cursor\<close>: the documents that \<open>Next\<close> will still hand over, and the error
  that \<open>cur.Err()\<close> reports once \<open>Next\<close> has returned false.
\<close>

record Cursor =
  pending :: "Person list"
  Err :: "error option"

text \<open>
  \<open>Find\<close> with the empty filter: a cursor over all documents, or over the first
  \<open>n\<close> of them when the cursor fails after those.
\<close>

definition Find ::
  "string option \<Rightarrow> (nat \<times> string) option \<Rightarrow> collection \<Rightarrow> error + Cursor" where
  "Find fault cursor_fault coll =
     (case fault of
        Some msg \<Rightarrow> Inl (DriverError msg)
      | None \<Rightarrow>
          (case cursor_fault of
             None \<Rightarrow> Inr \<lparr>pending = coll, Err = None\<rparr>
           | Some (n, msg) \<Rightarrow>
               if n < length coll
               then Inr \<lparr>pending = take n coll, Err = Some (DriverError msg)\<rparr>
               else Inr \<lparr>pending = coll, Err = None\<rparr>))"

text \<open>
  \<open>cur.Next\<close>: the next document and the cursor after it, while a document is pending;
  false (\<open>None\<close>) afterwards, when the cursor is exhausted and when it has failed
  alike. Only \<open>cur.Err()\<close> tells the two apart.
\<close>

definition Next :: "Cursor \<Rightarrow> (Person \<times> Cursor) option" where
  "Next cur = (case pending cur of [] \<Rightarrow> None | d # ds \<Rightarrow> Some (d, cur\<lparr>pending := ds\<rparr>))"

text \<open>\<open>cur.Decode(&person)\<close>: a document of the collection has the shape of \<open>Person\<close>.\<close>

definition Decode_cursor :: "Person \<Rightarrow> error + Person" where
  "Decode_cursor d = Inr d"

text \<open>
  \<open>FindOne(...).Decode(&person)\<close>: the first document the filter matches, or
  \<open>ErrNoDocuments\<close>.
\<close>

definition FindOne_Decode :: "string option \<Rightarrow> collection \<Rightarrow> bson_value \<Rightarrow> error + Person" where
  "FindOne_Decode fault coll v =
     (case fault of
        Some msg \<Rightarrow> Inl (DriverError msg)
      | None \<Rightarrow> (case find (matches v) coll of None \<Rightarrow> Inl ErrNoDocuments | Some d \<Rightarrow> Inr d))"

text \<open>
  \<open>InsertOne\<close>: the document keeps its \<open>_id\<close> when the identifier of the \<open>Person\<close> is
  not zero; otherwise the driver adds a new ObjectID, here \<open>fresh\<close>. The server refuses
  an \<open>_id\<close> that is in the collection already. The result is the new collection
  and \<open>InsertedID\<close>, an \<open>interface{}\<close>.
\<close>

definition InsertOne ::
  "string option \<Rightarrow> ObjectID \<Rightarrow> collection \<Rightarrow> Person \<Rightarrow> error + (collection \<times> bson_value)" where
  "InsertOne fault fresh coll p =
     (case fault of
        Some msg \<Rightarrow> Inl (DriverError msg)
      | None \<Rightarrow>
          (let oid = (if IsZero (ID p) then fresh else ID p) in
           if oid \<in> set (map ID coll) then Inl (DuplicateKey oid)
           else Inr (coll @ [p\<lparr>ID := oid\<rparr>], BObjectID oid)))"

text \<open>
  \<open>UpdateOne\<close> with \<open>bson.M{"$set": person}\<close>: in the first document the filter
  matches, \<open>name\<close>, \<open>age\<close> and \<open>address\<close> are set, and \<open>_id\<close> too when the
  identifier of \<open>person\<close> is not zero, which the server refuses when it would change.
  The result is the new collection and \<open>MatchedCount\<close>.
\<close>

fun update_first :: "bson_value \<Rightarrow> Person \<Rightarrow> collection \<Rightarrow> error + (collection \<times> nat)" where
  "update_first v p [] = Inr ([], 0)"
| "update_first v p (d # ds) =
     (if matches v d then
        (if \<not> IsZero (ID p) \<and> ID p \<noteq> ID d then Inl ImmutableField
         else Inr (d\<lparr>Name := Name p, Age := Age p, Address := Address p\<rparr> # ds, 1))
      else
        (case update_first v p ds of
           Inl e \<Rightarrow> Inl e
         | Inr (ds', n) \<Rightarrow> Inr (d # ds', n)))"

definition UpdateOne ::
  "string option \<Rightarrow> collection \<Rightarrow> bson_value \<Rightarrow> Person \<Rightarrow> error + (collection \<times> nat)" where
  "UpdateOne fault coll v p =
     (case fault of Some msg \<Rightarrow> Inl (DriverError msg) | None \<Rightarrow> update_first v p coll)"

text \<open>\<open>DeleteOne\<close>: removes the first document the filter matches; the result is the
  new collection and \<open>DeletedCount\<close>.\<close>

fun delete_first :: "bson_value \<Rightarrow> collection \<Rightarrow> collection \<times> nat" where
  "delete_first v [] = ([], 0)"
| "delete_first v (d # ds) =
     (if matches v d then (ds, 1)
      else (case delete_first v ds of (ds', n) \<Rightarrow> (d # ds', n)))"

definition DeleteOne ::
  "string option \<Rightarrow> collection \<Rightarrow> bson_value \<Rightarrow> error + (collection \<times> nat)" where
  "DeleteOne fault coll v =
     (case fault of Some msg \<Rightarrow> Inl (DriverError msg) | None \<Rightarrow> Inr (delete_first v coll))"

subsection \<open>The handlers\<close>

text \<open>
  Go's \<open>append\<close> on \<open>var people []Person\<close>: the slice is nil (\<open>None\<close>) until the first
  element is appended.
\<close>

definition append_slice :: "Person list option \<Rightarrow> Person \<Rightarrow> Person list option" where
  "append_slice people person =
     (case people of None \<Rightarrow> Some [person] | Some ps \<Rightarrow> Some (ps @ [person]))"

definition Encode_people :: "Person list option \<Rightarrow> payload" where
  "Encode_people people = (case people of None \<Rightarrow> JSONNull | Some ps \<Rightarrow> JSONArray ps)"

text \<open>
  The loop of \<open>GetPeople\<close>, lines 90 to 97: it runs while \<open>cur.Next\<close> returns true
  and leaves with \<open>people\<close> when it returns false.
\<close>

function cursor_loop :: "Cursor \<Rightarrow> Person list option \<Rightarrow> error + Person list option" where
  "cursor_loop cur people =
     (case Next cur of
        None \<Rightarrow> Inr people
      | Some (d, cur') \<Rightarrow>
          (case Decode_cursor d of
             Inl err \<Rightarrow> Inl err
           | Inr person \<Rightarrow> cursor_loop cur' (append_slice people person)))"
  by pat_completeness auto
termination
  by (relation "measure (\<lambda>(cur, people). length (pending cur))")
     (auto simp: Next_def split: list.splits)

declare cursor_loop.simps [simp del]

text \<open>
  \<open>GetPeople\<close>, lines 79 to 101. After the loop the handler encodes \<open>people\<close>;
  \<open>cur.Err()\<close> is not read.
\<close>

definition GetPeople ::
  "string option \<Rightarrow> (nat \<times> string) option \<Rightarrow> collection \<Rightarrow> response" where
  "GetPeople fault cursor_fault coll =
     (let w = new_response in
      case Find fault cursor_fault coll of
        Inl err \<Rightarrow> handleError w err
      | Inr cur \<Rightarrow>
          (case cursor_loop cur None of
             Inl err \<Rightarrow> handleError w err
           | Inr people \<Rightarrow>
               Write (Encode_people people) (Header_Set_Content_Type ''application/json'' w)))"

text \<open>\<open>GetPerson\<close>, lines 103 to 126; \<open>idStr\<close> is the path variable \<open>id\<close>.\<close>

definition GetPerson :: "string option \<Rightarrow> collection \<Rightarrow> string \<Rightarrow> response" where
  "GetPerson fault coll idStr =
     (let w = new_response in
      case ObjectIDFromHex idStr of
        Inl err \<Rightarrow> handleError w err
      | Inr objectID \<Rightarrow>
          (case FindOne_Decode fault coll (BObjectID objectID) of
             Inl err \<Rightarrow> handleError w err
           | Inr person \<Rightarrow>
               Write (JSONPerson person) (Header_Set_Content_Type ''application/json'' w)))"

text \<open>
  \<open>CreatePerson\<close>, lines 128 to 149. The type assertion
  \<open>result.InsertedID.(primitive.ObjectID)\<close> of line 144 panics on any other value; the
  handler then has written no response, while the document is in the collection.
\<close>

datatype reply = Reply response | Panic

definition CreatePerson ::
  "string option \<Rightarrow> ObjectID \<Rightarrow> collection \<Rightarrow> body \<Rightarrow> collection \<times> reply" where
  "CreatePerson fault fresh coll b =
     (let w = new_response in
      case Decode_json b of
        Inl err \<Rightarrow> (coll, Reply (handleError w err))
      | Inr person \<Rightarrow>
          (case InsertOne fault fresh coll person of
             Inl err \<Rightarrow> (coll, Reply (handleError w err))
           | Inr (coll', InsertedID) \<Rightarrow>
               (case InsertedID of
                  BObjectID oid \<Rightarrow>
                    (coll', Reply (Write (JSONPerson (person\<lparr>ID := oid\<rparr>))
                              (WriteHeader 201 (Header_Set_Content_Type ''application/json'' w))))
                | BString _ \<Rightarrow> (coll', Panic))))"

text \<open>\<open>UpdatePerson\<close>, lines 151 to 171: the filter is the path variable \<open>id\<close>, a string.\<close>

definition UpdatePerson ::
  "string option \<Rightarrow> collection \<Rightarrow> string \<Rightarrow> body \<Rightarrow> collection \<times> response" where
  "UpdatePerson fault coll idStr b =
     (let w = new_response in
      case Decode_json b of
        Inl err \<Rightarrow> (coll, handleError w err)
      | Inr person \<Rightarrow>
          (case UpdateOne fault coll (BString idStr) person of
             Inl err \<Rightarrow> (coll, handleError w err)
           | Inr (coll', _) \<Rightarrow>
               (coll', Write (JSONPerson person) (Header_Set_Content_Type ''application/json'' w))))"

text \<open>\<open>DeletePerson\<close>, lines 173 to 185: the filter is the path variable \<open>id\<close>, a string.\<close>

definition DeletePerson :: "string option \<Rightarrow> collection \<Rightarrow> string \<Rightarrow> collection \<times> response" where
  "DeletePerson fault coll idStr =
     (let w = new_response in
      case DeleteOne fault coll (BString idStr) of
        Inl err \<Rightarrow> (coll, handleError w err)
      | Inr (coll', _) \<Rightarrow> (coll', WriteHeader 204 w))"

section \<open>Properties\<close>

subsection \<open>Identifiers and their hexadecimal form\<close>

lemma fromHexChar_hextable: "n < 16 \<Longrightarrow> fromHexChar (hextable ! n) = Some n"
proof -
  assume "n < 16"
  then have "n \<in> {0,1,2,3,4,5,6,7,8,9,10,11,12,13,14,15}" by simp presburger
  then show ?thesis by (auto simp: fromHexChar_def hextable_def)
qed

lemma byte_recompose: "(of_nat (unat b div 16 * 16 + unat b mod 16) :: byte) = b"
  by simp

lemma Decode_hex_byte: "Decode_hex (hex_byte b @ s) = (case Decode_hex s of Inl e \<Rightarrow> Inl e | Inr bs \<Rightarrow> Inr (b # bs))"
proof -
  have "unat b < 256" using unsigned_less [of b, where ?'a = nat] by simp
  then have "unat b div 16 < 16" "unat b mod 16 < 16" by auto
  then show ?thesis
    by (simp add: hex_byte_def fromHexChar_hextable byte_recompose split: sum.split)
qed

lemma Decode_hex_EncodeToString: "Decode_hex (EncodeToString bs) = Inr bs"
  by (induction bs) (simp_all add: EncodeToString_def Decode_hex_byte)

lemma length_EncodeToString: "length (EncodeToString bs) = 2 * length bs"
  by (induction bs) (simp_all add: EncodeToString_def hex_byte_def)

lemma ObjectIDFromHex_Hex: "valid_oid oid \<Longrightarrow> ObjectIDFromHex (Hex oid) = Inr oid"
  by (simp add: ObjectIDFromHex_def Hex_def valid_oid_def length_EncodeToString Decode_hex_EncodeToString)

lemma Decode_hex_Inl:
  "Decode_hex s = Inl e \<Longrightarrow> (\<exists>c. e = InvalidByteError c) \<or> (e = ErrLength \<and> odd (length s))"
proof (induction s arbitrary: e rule: Decode_hex.induct)
  case 1
  then show ?case by simp
next
  case (2 c)
  then show ?case by (cases "fromHexChar c") auto
next
  case (3 p q rest)
  show ?case
  proof (cases "fromHexChar p")
    case None
    with 3 show ?thesis by auto
  next
    case a: (Some a)
    show ?thesis
    proof (cases "fromHexChar q")
      case None
      with 3 a show ?thesis by auto
    next
      case b: (Some b)
      show ?thesis
      proof (cases "Decode_hex rest")
        case (Inl e')
        with 3(2) a b have "e' = e" by simp
        with 3(1) [OF a b] Inl show ?thesis by auto
      next
        case (Inr bs)
        with 3(2) a b show ?thesis by simp
      qed
    qed
  qed
qed

lemma ObjectIDFromHex_Inl:
  "ObjectIDFromHex s = Inl e \<Longrightarrow> e = ErrInvalidHex \<or> (\<exists>c. e = InvalidByteError c)"
  by (auto simp: ObjectIDFromHex_def split: if_splits dest: Decode_hex_Inl)

lemma NilObjectID_bytes: "NilObjectID = [0, 0, 0, 0, 0, 0, 0, 0, 0, 0, 0, 0]"
  by (simp add: NilObjectID_def numeral_eq_Suc)

lemma Decode_hex_Inr:
  "Decode_hex s = Inr bs \<Longrightarrow> length s = 2 * length bs \<and> (\<forall>c \<in> set s. fromHexChar c \<noteq> None)"
proof (induction s arbitrary: bs rule: Decode_hex.induct)
  case 1
  then show ?case by simp
next
  case (2 c)
  then show ?case by (simp split: option.splits)
next
  case (3 p q rest)
  from 3(2) obtain a b bs' where a: "fromHexChar p = Some a" and b: "fromHexChar q = Some b"
    and r: "Decode_hex rest = Inr bs'" and bs: "bs = of_nat (a * 16 + b) # bs'"
    by (auto split: option.splits sum.splits)
  from 3(1) [OF a b r] a b bs show ?case by simp
qed

lemma Decode_hex_total:
  "even (length s) \<Longrightarrow> \<forall>c \<in> set s. fromHexChar c \<noteq> None \<Longrightarrow> \<exists>bs. Decode_hex s = Inr bs"
proof (induction s rule: Decode_hex.induct)
  case 1
  then show ?case by simp
next
  case (2 c)
  then show ?case by simp
next
  case (3 p q rest)
  from 3(3) obtain a b where a: "fromHexChar p = Some a" and b: "fromHexChar q = Some b"
    by auto
  from 3(2,3) have "even (length rest)" "\<forall>c \<in> set rest. fromHexChar c \<noteq> None" by simp_all
  from 3(1) [OF a b this] a b show ?case by auto
qed

lemma ObjectIDFromHex_Inr_iff:
  "(\<exists>oid. ObjectIDFromHex s = Inr oid) \<longleftrightarrow>
   length s = 24 \<and> (\<forall>c \<in> set s. fromHexChar c \<noteq> None)"
proof
  assume "\<exists>oid. ObjectIDFromHex s = Inr oid"
  then obtain oid where "ObjectIDFromHex s = Inr oid" ..
  then have "length s = 24" "Decode_hex s = Inr oid"
    by (simp_all add: ObjectIDFromHex_def split: if_splits)
  with Decode_hex_Inr [of s oid] show "length s = 24 \<and> (\<forall>c \<in> set s. fromHexChar c \<noteq> None)"
    by simp
next
  assume a: "length s = 24 \<and> (\<forall>c \<in> set s. fromHexChar c \<noteq> None)"
  then have "even (length s)" by simp
  with a Decode_hex_total [of s] show "\<exists>oid. ObjectIDFromHex s = Inr oid"
    by (simp add: ObjectIDFromHex_def)
qed

lemma ObjectIDFromHex_valid: "ObjectIDFromHex s = Inr oid \<Longrightarrow> valid_oid oid"
proof -
  assume a: "ObjectIDFromHex s = Inr oid"
  then have "length s = 24" "Decode_hex s = Inr oid"
    by (simp_all add: ObjectIDFromHex_def split: if_splits)
  with Decode_hex_Inr [of s oid] show ?thesis by (simp add: valid_oid_def)
qed

subsection \<open>Responses and store calls\<close>

lemma handleError_new_response:
  "handleError new_response e =
     \<lparr>status = Some 500, content_type = Some ''text/plain; charset=utf-8'',
      payload = Text (Error e @ [CHR 0x0A])\<rparr>"
  by (simp add: handleError_def http_Error_def Write_def WriteHeader_def
      Header_Set_Content_Type_def new_response_def)

lemma write_json_200:
  "Write p (Header_Set_Content_Type ''application/json'' new_response) =
     \<lparr>status = Some 200, content_type = Some ''application/json'', payload = p\<rparr>"
  by (simp add: Write_def WriteHeader_def Header_Set_Content_Type_def new_response_def)

lemma write_json_201:
  "Write p (WriteHeader 201 (Header_Set_Content_Type ''application/json'' new_response)) =
     \<lparr>status = Some 201, content_type = Some ''application/json'', payload = p\<rparr>"
  by (simp add: Write_def WriteHeader_def Header_Set_Content_Type_def new_response_def)

lemma write_header_204:
  "WriteHeader 204 new_response = \<lparr>status = Some 204, content_type = None, payload = NoBody\<rparr>"
  by (simp add: WriteHeader_def new_response_def)

lemma matches_BString: "\<not> matches (BString s) d"
  by (simp add: matches_def)

lemma update_first_BString: "update_first (BString s) p coll = Inr (coll, 0)"
  by (induction coll) (simp_all add: matches_BString)

lemma delete_first_BString: "delete_first (BString s) coll = (coll, 0)"
  by (induction coll) (simp_all add: matches_BString)

lemma cursor_loop_Some:
  "cursor_loop \<lparr>pending = ds, Err = e\<rparr> (Some ps) = Inr (Some (ps @ ds))"
proof (induction ds arbitrary: ps)
  case Nil
  show ?case by (simp add: cursor_loop.simps [of "\<lparr>pending = [], Err = e\<rparr>"] Next_def)
next
  case (Cons d ds)
  show ?case
    by (simp add: cursor_loop.simps [of "\<lparr>pending = d # ds, Err = e\<rparr>"] Next_def
        Decode_cursor_def append_slice_def Cons.IH)
qed

lemma cursor_loop_None:
  "cursor_loop \<lparr>pending = ds, Err = e\<rparr> None = Inr (if ds = [] then None else Some ds)"
proof (cases ds)
  case Nil
  then show ?thesis
    by (simp add: cursor_loop.simps [of "\<lparr>pending = [], Err = e\<rparr>"] Next_def)
next
  case (Cons d ds')
  then show ?thesis
    by (simp add: cursor_loop.simps [of "\<lparr>pending = d # ds', Err = e\<rparr>"] Next_def
        Decode_cursor_def append_slice_def cursor_loop_Some)
qed

lemma GetPeople_ok:
  "GetPeople None None coll =
     \<lparr>status = Some 200, content_type = Some ''application/json'',
      payload = (if coll = [] then JSONNull else JSONArray coll)\<rparr>"
  by (simp add: GetPeople_def Find_def cursor_loop_None Encode_people_def write_json_200)

lemma GetPeople_cursor_fault:
  "n < length coll \<Longrightarrow>
   GetPeople None (Some (n, msg)) coll =
     \<lparr>status = Some 200, content_type = Some ''application/json'',
      payload = (if n = 0 then JSONNull else JSONArray (take n coll))\<rparr>"
  by (auto simp: GetPeople_def Find_def cursor_loop_None Encode_people_def write_json_200)

lemma UpdatePerson_ok:
  "Decode_json b = Inr p \<Longrightarrow>
   UpdatePerson None coll idStr b =
     (coll, \<lparr>status = Some 200, content_type = Some ''application/json'', payload = JSONPerson p\<rparr>)"
  by (simp add: UpdatePerson_def UpdateOne_def update_first_BString write_json_200)

lemma DeletePerson_ok:
  "DeletePerson None coll idStr =
     (coll, \<lparr>status = Some 204, content_type = None, payload = NoBody\<rparr>)"
  by (simp add: DeletePerson_def DeleteOne_def delete_first_BString write_header_204)

lemma find_matches_append:
  "oid \<notin> set (map ID coll) \<Longrightarrow> ID d = oid \<Longrightarrow>
   find (matches (BObjectID oid)) (coll @ [d]) = Some d"
  by (induction coll) (auto simp: matches_def)

lemma find_matches_None:
  "oid \<notin> set (map ID coll) \<Longrightarrow> find (matches (BObjectID oid)) coll = None"
  by (induction coll) (auto simp: matches_def)

lemma GetPerson_invalid:
  "ObjectIDFromHex idStr = Inl err \<Longrightarrow> GetPerson fault coll idStr = handleError new_response err"
  by (simp add: GetPerson_def)

lemma GetPerson_absent:
  "ObjectIDFromHex idStr = Inr oid \<Longrightarrow> oid \<notin> set (map ID coll) \<Longrightarrow>
   GetPerson None coll idStr = handleError new_response ErrNoDocuments"
  by (simp add: GetPerson_def FindOne_Decode_def find_matches_None)

lemma GetPerson_fault:
  "ObjectIDFromHex idStr = Inr oid \<Longrightarrow>
   GetPerson (Some msg) coll idStr = handleError new_response (DriverError msg)"
  by (simp add: GetPerson_def FindOne_Decode_def)

lemma InsertOne_Inr:
  "InsertOne fault fresh coll p = Inr (coll', v) \<Longrightarrow>
   fault = None \<and>
   (\<exists>oid. oid = (if IsZero (ID p) then fresh else ID p) \<and> oid \<notin> set (map ID coll) \<and>
          v = BObjectID oid \<and> coll' = coll @ [p\<lparr>ID := oid\<rparr>])"
  by (auto simp: InsertOne_def Let_def split: option.splits if_splits)

lemma CreatePerson_inserted:
  "Decode_json b = Inr p \<Longrightarrow> InsertOne fault fresh coll p = Inr (coll', BObjectID oid) \<Longrightarrow>
   CreatePerson fault fresh coll b =
     (coll', Reply \<lparr>status = Some 201, content_type = Some ''application/json'',
                    payload = JSONPerson (p\<lparr>ID := oid\<rparr>)\<rparr>)"
  by (simp add: CreatePerson_def write_json_201)

lemma CreatePerson_decode_error:
  "Decode_json b = Inl err \<Longrightarrow>
   CreatePerson fault fresh coll b = (coll, Reply (handleError new_response err))"
  by (simp add: CreatePerson_def)

lemma CreatePerson_insert_error:
  "Decode_json b = Inr p \<Longrightarrow> InsertOne fault fresh coll p = Inl err \<Longrightarrow>
   CreatePerson fault fresh coll b = (coll, Reply (handleError new_response err))"
  by (simp add: CreatePerson_def)

lemma CreatePerson_cases:
  "(\<exists>err. CreatePerson fault fresh coll b = (coll, Reply (handleError new_response err))) \<or>
   (\<exists>p oid. Decode_json b = Inr p \<and> fault = None \<and>
       oid = (if IsZero (ID p) then fresh else ID p) \<and> oid \<notin> set (map ID coll) \<and>
       CreatePerson fault fresh coll b =
         (coll @ [p\<lparr>ID := oid\<rparr>],
          Reply \<lparr>status = Some 201, content_type = Some ''application/json'',
                 payload = JSONPerson (p\<lparr>ID := oid\<rparr>)\<rparr>))"
proof (cases "Decode_json b")
  case (Inl err)
  from CreatePerson_decode_error [OF Inl] show ?thesis by (intro disjI1 exI)
next
  case (Inr p)
  show ?thesis
  proof (cases "InsertOne fault fresh coll p")
    case (Inl err)
    from CreatePerson_insert_error [OF Inr Inl] show ?thesis by (intro disjI1 exI)
  next
    case ins: (Inr res)
    obtain coll' v where res: "res = (coll', v)" by (cases res)
    from InsertOne_Inr [OF ins [unfolded res]]
    obtain oid where f: "fault = None"
      and oid: "oid = (if IsZero (ID p) then fresh else ID p)" "oid \<notin> set (map ID coll)"
      and v: "v = BObjectID oid" and c: "coll' = coll @ [p\<lparr>ID := oid\<rparr>]"
      by blast
    from ins res v have "InsertOne fault fresh coll p = Inr (coll', BObjectID oid)" by simp
    from CreatePerson_inserted [OF Inr this] c
    have "CreatePerson fault fresh coll b =
         (coll @ [p\<lparr>ID := oid\<rparr>],
          Reply \<lparr>status = Some 201, content_type = Some ''application/json'',
                 payload = JSONPerson (p\<lparr>ID := oid\<rparr>)\<rparr>)" by simp
    with Inr f oid show ?thesis by (intro disjI2 exI [of _ p] exI [of _ oid] conjI)
  qed
qed

lemma Decode_json_valid:
  "valid_body b \<Longrightarrow> Decode_json b = Inr p \<Longrightarrow> \<not> IsZero (ID p) \<Longrightarrow> valid_oid (ID p)"
  by (auto simp: valid_body_def Decode_json_def IsZero_def split: body.splits option.splits)

lemma UpdatePerson_decode_error:
  "Decode_json b = Inl err \<Longrightarrow>
   UpdatePerson fault coll idStr b = (coll, handleError new_response err)"
  by (simp add: UpdatePerson_def)

lemma UpdatePerson_fault:
  "Decode_json b = Inr p \<Longrightarrow>
   UpdatePerson (Some msg) coll idStr b = (coll, handleError new_response (DriverError msg))"
  by (simp add: UpdatePerson_def UpdateOne_def)

lemma DeletePerson_fault:
  "DeletePerson (Some msg) coll idStr = (coll, handleError new_response (DriverError msg))"
  by (simp add: DeletePerson_def DeleteOne_def)

lemma GetPeople_fault:
  "GetPeople (Some msg) cursor_fault coll = handleError new_response (DriverError msg)"
  by (simp add: GetPeople_def Find_def)

lemma CreatePerson_fault:
  "Decode_json b = Inr p \<Longrightarrow>
   CreatePerson (Some msg) fresh coll b = (coll, Reply (handleError new_response (DriverError msg)))"
  by (simp add: CreatePerson_def InsertOne_def)

lemma Decode_json_Inl: "Decode_json b = Inl err \<Longrightarrow> \<exists>msg. err = JSONError msg"
  by (cases b) (auto simp: Decode_json_def)

lemma Error_not_found_differs:
  "err = ErrInvalidHex \<or> (\<exists>c. err = InvalidByteError c) \<Longrightarrow> Error err \<noteq> Error ErrNoDocuments"
  by auto

subsection \<open>The claims\<close>

text \<open>
  C1. The claim: \<open>Update(idString, personInput)\<close>, with \<open>idString\<close> the string
  form of a stored record's identifier, replaces the stored name, age and address.
  The code at \<open>PUT /people/000000000000000000000001\<close>, the path being the
  hexadecimal form of the identifier of the one stored record, with a body of new name,
  age and address: the filter is the string, which equals no ObjectID, so the stored
  record keeps its name, age and address, while the handler answers 200 with the
  body's fields.
\<close>

theorem UpdatePerson_stored_record_untouched:
  "Hex [0, 0, 0, 0, 0, 0, 0, 0, 0, 0, 0, 1] = ''000000000000000000000001'' \<and>
   UpdatePerson None
     [\<lparr>ID = [0, 0, 0, 0, 0, 0, 0, 0, 0, 0, 0, 1], Name = ''Ann'', Age = 30,
       Address = ''1 Main St''\<rparr>]
     ''000000000000000000000001''
     (Object \<lparr>json_id = None, json_name = ''Bob'', json_age = 31, json_address = ''2 Side St''\<rparr>)
   = ([\<lparr>ID = [0, 0, 0, 0, 0, 0, 0, 0, 0, 0, 0, 1], Name = ''Ann'', Age = 30,
        Address = ''1 Main St''\<rparr>],
      \<lparr>status = Some 200, content_type = Some ''application/json'',
       payload = JSONPerson \<lparr>ID = NilObjectID, Name = ''Bob'', Age = 31,
                              Address = ''2 Side St''\<rparr>\<rparr>)"
  by (simp add: Hex_def EncodeToString_def hex_byte_def hextable_def
      UpdatePerson_def Decode_json_def UpdateOne_def matches_def write_json_200)

text \<open>
  C2, as stated, fails: a \<open>POST /people\<close> whose body has the \<open>id\<close>
  \<open>000000000000000000000007\<close>, while the store would generate
  \<open>000000000000000000000001\<close>, inserts the record under the identifier of the body
  and returns that one.
\<close>

theorem CreatePerson_supplied_id_counterexample:
  "CreatePerson None [0, 0, 0, 0, 0, 0, 0, 0, 0, 0, 0, 1] []
     (Object \<lparr>json_id = Some [0, 0, 0, 0, 0, 0, 0, 0, 0, 0, 0, 7], json_name = ''Ann'',
              json_age = 30, json_address = ''1 Main St''\<rparr>) =
     ([\<lparr>ID = [0, 0, 0, 0, 0, 0, 0, 0, 0, 0, 0, 7], Name = ''Ann'', Age = 30,
        Address = ''1 Main St''\<rparr>],
      Reply \<lparr>status = Some 201, content_type = Some ''application/json'',
             payload = JSONPerson \<lparr>ID = [0, 0, 0, 0, 0, 0, 0, 0, 0, 0, 0, 7], Name = ''Ann'',
                                    Age = 30, Address = ''1 Main St''\<rparr>\<rparr>) \<and>
   [0, 0, 0, 0, 0, 0, 0, 0, 0, 0, 0, 7] \<noteq> ([0, 0, 0, 0, 0, 0, 0, 0, 0, 0, 0, 1] :: ObjectID)"
  by (simp add: CreatePerson_def Decode_json_def InsertOne_def IsZero_def NilObjectID_bytes
      Let_def write_json_201)

text \<open>
  C2, amended. For every \<open>POST /people\<close> whose body has no \<open>id\<close>, or the zero
  one, the record is inserted under the identifier the store generates, and the returned
  Person carries it; for every body whose \<open>id\<close> is not zero the record is inserted
  under that identifier, which is the one returned. (In both cases the identifier is not
  in the collection yet and the store call does not fail.)
\<close>

theorem CreatePerson_identifier:
  assumes "json_id j = None \<or> json_id j = Some NilObjectID"
    and "fresh \<notin> set (map ID coll)"
    and "json_id j' = Some oid" and "oid \<noteq> NilObjectID" and "oid \<notin> set (map ID coll)"
  shows "CreatePerson None fresh coll (Object j) =
           (coll @ [\<lparr>ID = fresh, Name = json_name j, Age = json_age j,
                     Address = json_address j\<rparr>],
            Reply \<lparr>status = Some 201, content_type = Some ''application/json'',
                   payload = JSONPerson \<lparr>ID = fresh, Name = json_name j, Age = json_age j,
                                          Address = json_address j\<rparr>\<rparr>) \<and>
         CreatePerson None fresh coll (Object j') =
           (coll @ [\<lparr>ID = oid, Name = json_name j', Age = json_age j',
                     Address = json_address j'\<rparr>],
            Reply \<lparr>status = Some 201, content_type = Some ''application/json'',
                   payload = JSONPerson \<lparr>ID = oid, Name = json_name j', Age = json_age j',
                                          Address = json_address j'\<rparr>\<rparr>)"
proof
  let ?p = "\<lparr>ID = NilObjectID, Name = json_name j, Age = json_age j, Address = json_address j\<rparr>"
  from assms(1) have d: "Decode_json (Object j) = Inr ?p"
    by (auto simp: Decode_json_def)
  from assms(2) have "InsertOne None fresh coll ?p = Inr (coll @ [?p\<lparr>ID := fresh\<rparr>], BObjectID fresh)"
    by (simp add: InsertOne_def IsZero_def Let_def)
  from CreatePerson_inserted [OF d this]
  show "CreatePerson None fresh coll (Object j) =
           (coll @ [\<lparr>ID = fresh, Name = json_name j, Age = json_age j,
                     Address = json_address j\<rparr>],
            Reply \<lparr>status = Some 201, content_type = Some ''application/json'',
                   payload = JSONPerson \<lparr>ID = fresh, Name = json_name j, Age = json_age j,
                                          Address = json_address j\<rparr>\<rparr>)"
    by simp
next
  let ?p = "\<lparr>ID = oid, Name = json_name j', Age = json_age j', Address = json_address j'\<rparr>"
  from assms(3) have d: "Decode_json (Object j') = Inr ?p"
    by (simp add: Decode_json_def)
  from assms(4,5) have "InsertOne None fresh coll ?p = Inr (coll @ [?p\<lparr>ID := oid\<rparr>], BObjectID oid)"
    by (simp add: InsertOne_def IsZero_def Let_def)
  from CreatePerson_inserted [OF d this]
  show "CreatePerson None fresh coll (Object j') =
           (coll @ [\<lparr>ID = oid, Name = json_name j', Age = json_age j',
                     Address = json_address j'\<rparr>],
            Reply \<lparr>status = Some 201, content_type = Some ''application/json'',
                   payload = JSONPerson \<lparr>ID = oid, Name = json_name j', Age = json_age j',
                                          Address = json_address j'\<rparr>\<rparr>)"
    by simp
qed

text \<open>
  C2, amended, on the empty collection: a body without \<open>id\<close> and one with the
  \<open>id\<close> \<open>000000000000000000000007\<close>, the store generating
  \<open>000000000000000000000001\<close>.
\<close>

theorem CreatePerson_identifier_witness:
  "CreatePerson None [0, 0, 0, 0, 0, 0, 0, 0, 0, 0, 0, 1] []
     (Object \<lparr>json_id = None, json_name = ''Ann'', json_age = 30,
              json_address = ''1 Main St''\<rparr>) =
     ([\<lparr>ID = [0, 0, 0, 0, 0, 0, 0, 0, 0, 0, 0, 1], Name = ''Ann'', Age = 30,
        Address = ''1 Main St''\<rparr>],
      Reply \<lparr>status = Some 201, content_type = Some ''application/json'',
             payload = JSONPerson \<lparr>ID = [0, 0, 0, 0, 0, 0, 0, 0, 0, 0, 0, 1], Name = ''Ann'',
                                    Age = 30, Address = ''1 Main St''\<rparr>\<rparr>) \<and>
   CreatePerson None [0, 0, 0, 0, 0, 0, 0, 0, 0, 0, 0, 1] []
     (Object \<lparr>json_id = Some [0, 0, 0, 0, 0, 0, 0, 0, 0, 0, 0, 7], json_name = ''Ann'',
              json_age = 30, json_address = ''1 Main St''\<rparr>) =
     ([\<lparr>ID = [0, 0, 0, 0, 0, 0, 0, 0, 0, 0, 0, 7], Name = ''Ann'', Age = 30,
        Address = ''1 Main St''\<rparr>],
      Reply \<lparr>status = Some 201, content_type = Some ''application/json'',
             payload = JSONPerson \<lparr>ID = [0, 0, 0, 0, 0, 0, 0, 0, 0, 0, 0, 7], Name = ''Ann'',
                                    Age = 30, Address = ''1 Main St''\<rparr>\<rparr>)"
proof -
  let ?j = "\<lparr>json_id = None, json_name = ''Ann'', json_age = 30,
              json_address = ''1 Main St''\<rparr>"
  let ?j' = "\<lparr>json_id = Some [0, 0, 0, 0, 0, 0, 0, 0, 0, 0, 0, 7], json_name = ''Ann'',
              json_age = 30, json_address = ''1 Main St''\<rparr>"
  have h1: "json_id ?j = None \<or> json_id ?j = Some NilObjectID" by simp
  have h2: "[0, 0, 0, 0, 0, 0, 0, 0, 0, 0, 0, 1] \<notin> set (map ID ([] :: collection))" by simp
  have h3: "json_id ?j' = Some [0, 0, 0, 0, 0, 0, 0, 0, 0, 0, 0, 7]" by simp
  have h4: "[0, 0, 0, 0, 0, 0, 0, 0, 0, 0, 0, 7] \<noteq> NilObjectID" by (simp add: NilObjectID_bytes)
  have h5: "[0, 0, 0, 0, 0, 0, 0, 0, 0, 0, 0, 7] \<notin> set (map ID ([] :: collection))" by simp
  from CreatePerson_identifier [OF h1 h2 h3 h4 h5] show ?thesis by simp
qed

text \<open>
  C3. For every body that decodes and every identifier the store generates: when
  \<open>POST /people\<close> has answered 201 with the Person \<open>p\<close>, then
  \<open>GET /people/{id}\<close> with the hexadecimal form of the identifier of \<open>p\<close>, on the
  collection the create has left and the store call not failing, answers 200 with
  \<open>p\<close> itself: the same name, age and address (and identifier).
\<close>

theorem Create_then_GetPerson:
  assumes "valid_oid fresh" and "valid_body b"
    and "CreatePerson fault fresh coll b = (coll', Reply r)" and "status r = Some 201"
  shows "\<exists>p. payload r = JSONPerson p \<and>
           GetPerson None coll' (Hex (ID p)) =
             \<lparr>status = Some 200, content_type = Some ''application/json'',
              payload = JSONPerson p\<rparr>"
proof -
  from CreatePerson_cases [of fault fresh coll b]
  consider (failed) err where
      "CreatePerson fault fresh coll b = (coll, Reply (handleError new_response err))"
    | (created) p oid where "Decode_json b = Inr p"
      "oid = (if IsZero (ID p) then fresh else ID p)" "oid \<notin> set (map ID coll)"
      "CreatePerson fault fresh coll b =
         (coll @ [p\<lparr>ID := oid\<rparr>],
          Reply \<lparr>status = Some 201, content_type = Some ''application/json'',
                 payload = JSONPerson (p\<lparr>ID := oid\<rparr>)\<rparr>)"
    by blast
  then show ?thesis
  proof cases
    case failed
    with assms(3) have "r = handleError new_response err" by simp
    with assms(4) show ?thesis by (simp add: handleError_new_response)
  next
    case created
    let ?q = "p\<lparr>ID := oid\<rparr>"
    from created(4) assms(3) have c: "coll' = coll @ [?q]" and r: "payload r = JSONPerson ?q"
      by simp_all
    have "valid_oid oid"
    proof (cases "IsZero (ID p)")
      case True
      with created(2) assms(1) show ?thesis by simp
    next
      case False
      with created(2) Decode_json_valid [OF assms(2) created(1)] show ?thesis by simp
    qed
    then have hex: "ObjectIDFromHex (Hex (ID ?q)) = Inr oid"
      by (simp add: ObjectIDFromHex_Hex)
    have "find (matches (BObjectID oid)) (coll @ [?q]) = Some ?q"
      by (rule find_matches_append [OF created(3)]) simp
    with hex c have "GetPerson None coll' (Hex (ID ?q)) =
        \<lparr>status = Some 200, content_type = Some ''application/json'', payload = JSONPerson ?q\<rparr>"
      by (simp add: GetPerson_def FindOne_Decode_def write_json_200)
    with r show ?thesis by blast
  qed
qed

text \<open>
  C3 on the empty collection, with the body \<open>{"name":"Ann","age":30,"address":"1 Main St"}\<close>
  and the generated identifier \<open>000000000000000000000001\<close>.
\<close>

theorem Create_then_GetPerson_witness:
  "valid_oid [0, 0, 0, 0, 0, 0, 0, 0, 0, 0, 0, 1] \<and>
   valid_body (Object \<lparr>json_id = None, json_name = ''Ann'', json_age = 30,
                        json_address = ''1 Main St''\<rparr>) \<and>
   CreatePerson None [0, 0, 0, 0, 0, 0, 0, 0, 0, 0, 0, 1] []
     (Object \<lparr>json_id = None, json_name = ''Ann'', json_age = 30,
              json_address = ''1 Main St''\<rparr>) =
     ([\<lparr>ID = [0, 0, 0, 0, 0, 0, 0, 0, 0, 0, 0, 1], Name = ''Ann'', Age = 30,
        Address = ''1 Main St''\<rparr>],
      Reply \<lparr>status = Some 201, content_type = Some ''application/json'',
             payload = JSONPerson \<lparr>ID = [0, 0, 0, 0, 0, 0, 0, 0, 0, 0, 0, 1], Name = ''Ann'',
                                    Age = 30, Address = ''1 Main St''\<rparr>\<rparr>) \<and>
   GetPerson None
     [\<lparr>ID = [0, 0, 0, 0, 0, 0, 0, 0, 0, 0, 0, 1], Name = ''Ann'', Age = 30,
       Address = ''1 Main St''\<rparr>]
     (Hex [0, 0, 0, 0, 0, 0, 0, 0, 0, 0, 0, 1]) =
     \<lparr>status = Some 200, content_type = Some ''application/json'',
      payload = JSONPerson \<lparr>ID = [0, 0, 0, 0, 0, 0, 0, 0, 0, 0, 0, 1], Name = ''Ann'',
                             Age = 30, Address = ''1 Main St''\<rparr>\<rparr>"
proof -
  let ?oid = "[0, 0, 0, 0, 0, 0, 0, 0, 0, 0, 0, 1] :: ObjectID"
  let ?b = "Object \<lparr>json_id = None, json_name = ''Ann'', json_age = 30,
                     json_address = ''1 Main St''\<rparr>"
  let ?p = "\<lparr>ID = ?oid, Name = ''Ann'', Age = 30, Address = ''1 Main St''\<rparr>"
  let ?r = "\<lparr>status = Some 201, content_type = Some ''application/json'',
             payload = JSONPerson ?p\<rparr>"
  have h1: "valid_oid ?oid" by (simp add: valid_oid_def)
  have h2: "valid_body ?b" by (simp add: valid_body_def)
  have h3: "CreatePerson None ?oid [] ?b = ([?p], Reply ?r)"
    by (simp add: CreatePerson_def Decode_json_def InsertOne_def IsZero_def NilObjectID_def
        Let_def write_json_201)
  have h4: "status ?r = Some 201" by simp
  from Create_then_GetPerson [OF h1 h2 h3 h4] h1 h2 h3 show ?thesis by simp
qed

text \<open>
  C4. The claim: on the empty collection \<open>GET /people\<close> answers 200 with a JSON
  array as its body. The code answers 200 with content type \<open>application/json\<close> and
  no error, but the body is not an array: \<open>people\<close> is still the nil slice, which
  the encoder writes as \<open>null\<close>. (With at least one document the body is the array
  of all documents, \<open>GetPeople_ok\<close>.)
\<close>

theorem GetPeople_empty_collection:
  "GetPeople None None [] =
     \<lparr>status = Some 200, content_type = Some ''application/json'', payload = JSONNull\<rparr>"
  by (simp add: GetPeople_def Find_def cursor_loop_None Encode_people_def write_json_200)

text \<open>
  C5, as stated, fails: \<open>GET /people/not-an-id\<close> answers 500, but with the
  \<open>Content-Type\<close> that \<open>http.Error\<close> sets, and with a body that is the message
  of the error followed by a line feed.
\<close>

theorem failing_request_counterexample:
  "ObjectIDFromHex ''not-an-id'' = Inl ErrInvalidHex \<and>
   GetPerson None [] ''not-an-id'' =
     \<lparr>status = Some 500, content_type = Some ''text/plain; charset=utf-8'',
      payload = Text (Error ErrInvalidHex @ [CHR 0x0A])\<rparr> \<and>
   content_type (GetPerson None [] ''not-an-id'') \<noteq> None \<and>
   payload (GetPerson None [] ''not-an-id'') \<noteq> Text (Error ErrInvalidHex)"
  by (simp add: ObjectIDFromHex_def GetPerson_def handleError_new_response)

text \<open>
  C5, amended. Every request in which the handler is returned an error is answered by
  \<open>handleError\<close> on the untouched response writer, that is with status 500, the
  content type \<open>text/plain; charset=utf-8\<close> and the message of the error followed by
  a line feed as body, whatever the cause: an identifier that does not parse
  (\<open>bad\<close>), one that parses and matches no record (\<open>good\<close>), a body that does not
  decode (\<open>b\<close>), or, with a body that decodes (\<open>b'\<close>), a store call that returns an
  error (\<open>msg\<close>, or the error of \<open>InsertOne\<close>). The status is 500 in every case.

  A cursor that fails while \<open>GetPeople\<close> reads it returns no error to the handler
  (\<open>GetPeople_cursor_fault\<close>); the statement does not cover that request.
\<close>

theorem failing_request_response:
  "handleError new_response err =
     \<lparr>status = Some 500, content_type = Some ''text/plain; charset=utf-8'',
      payload = Text (Error err @ [CHR 0x0A])\<rparr> \<and>
   (\<forall>e. ObjectIDFromHex bad = Inl e \<longrightarrow>
        GetPerson fault coll bad = handleError new_response e) \<and>
   (\<forall>oid. ObjectIDFromHex good = Inr oid \<longrightarrow>
        (oid \<notin> set (map ID coll) \<longrightarrow>
           GetPerson None coll good = handleError new_response ErrNoDocuments) \<and>
        GetPerson (Some msg) coll good = handleError new_response (DriverError msg)) \<and>
   (\<forall>e. Decode_json b = Inl e \<longrightarrow>
        CreatePerson fault fresh coll b = (coll, Reply (handleError new_response e)) \<and>
        UpdatePerson fault coll idStr b = (coll, handleError new_response e)) \<and>
   (\<forall>p. Decode_json b' = Inr p \<longrightarrow>
        (\<forall>e. InsertOne fault fresh coll p = Inl e \<longrightarrow>
           CreatePerson fault fresh coll b' = (coll, Reply (handleError new_response e))) \<and>
        CreatePerson (Some msg) fresh coll b' =
          (coll, Reply (handleError new_response (DriverError msg))) \<and>
        UpdatePerson (Some msg) coll idStr b' =
          (coll, handleError new_response (DriverError msg))) \<and>
   GetPeople (Some msg) cursor_fault coll = handleError new_response (DriverError msg) \<and>
   DeletePerson (Some msg) coll idStr = (coll, handleError new_response (DriverError msg))"
proof (intro conjI allI impI)
  show "handleError new_response err =
     \<lparr>status = Some 500, content_type = Some ''text/plain; charset=utf-8'',
      payload = Text (Error err @ [CHR 0x0A])\<rparr>"
    by (rule handleError_new_response)
qed (simp_all add: GetPerson_invalid GetPerson_absent GetPerson_fault
      CreatePerson_decode_error UpdatePerson_decode_error CreatePerson_insert_error
      CreatePerson_fault UpdatePerson_fault GetPeople_fault DeletePerson_fault)

text \<open>
  C5, amended, at \<open>GET /people/not-an-id\<close>, at
  \<open>GET /people/000000000000000000000002\<close> and at a \<open>PUT\<close> with a body that is cut
  off, all on the empty collection.
\<close>

theorem failing_request_response_witness:
  "ObjectIDFromHex ''not-an-id'' = Inl ErrInvalidHex \<and>
   GetPerson None [] ''not-an-id'' =
     \<lparr>status = Some 500, content_type = Some ''text/plain; charset=utf-8'',
      payload = Text (Error ErrInvalidHex @ [CHR 0x0A])\<rparr> \<and>
   ObjectIDFromHex ''000000000000000000000002'' = Inr [0, 0, 0, 0, 0, 0, 0, 0, 0, 0, 0, 2] \<and>
   GetPerson None [] ''000000000000000000000002'' =
     \<lparr>status = Some 500, content_type = Some ''text/plain; charset=utf-8'',
      payload = Text (Error ErrNoDocuments @ [CHR 0x0A])\<rparr> \<and>
   Decode_json (Malformed ''unexpected EOF'') = Inl (JSONError ''unexpected EOF'') \<and>
   UpdatePerson None [] ''000000000000000000000002'' (Malformed ''unexpected EOF'') =
     ([], \<lparr>status = Some 500, content_type = Some ''text/plain; charset=utf-8'',
           payload = Text (''unexpected EOF'' @ [CHR 0x0A])\<rparr>)"
proof -
  let ?oid = "[0, 0, 0, 0, 0, 0, 0, 0, 0, 0, 0, 2] :: ObjectID"
  have h1: "ObjectIDFromHex ''not-an-id'' = Inl ErrInvalidHex"
    by (simp add: ObjectIDFromHex_def)
  have h2: "ObjectIDFromHex ''000000000000000000000002'' = Inr ?oid"
    by (simp add: ObjectIDFromHex_def fromHexChar_def)
  have h3: "?oid \<notin> set (map ID ([] :: collection))" by simp
  have h4: "Decode_json (Malformed ''unexpected EOF'') = Inl (JSONError ''unexpected EOF'')"
    by (simp add: Decode_json_def)
  note t = failing_request_response [of _ "''not-an-id''" None "[]"
      "''000000000000000000000002''" _ "Malformed ''unexpected EOF''" _
      "''000000000000000000000002''"]
  from t h1 have a: "GetPerson None [] ''not-an-id'' = handleError new_response ErrInvalidHex"
    by blast
  from t h2 h3 have b: "GetPerson None [] ''000000000000000000000002'' =
      handleError new_response ErrNoDocuments"
    by blast
  from t h4 have c: "UpdatePerson None [] ''000000000000000000000002''
      (Malformed ''unexpected EOF'') = ([], handleError new_response (JSONError ''unexpected EOF''))"
    by blast
  have d: "handleError new_response err =
     \<lparr>status = Some 500, content_type = Some ''text/plain; charset=utf-8'',
      payload = Text (Error err @ [CHR 0x0A])\<rparr>" for err
    using t by (rule conjunct1)
  from a b c h1 h2 h4 show ?thesis by (simp add: d)
qed

text \<open>
  C6. For every identifier string that \<open>ObjectIDFromHex\<close> rejects (\<open>bad\<close>),
  \<open>GET /people/{id}\<close> answers with that error whatever the collection holds and
  whether or not the store is reachable: the store is not consulted. The error is not
  the one of a well-formed identifier that matches no record (\<open>good\<close>), which is
  \<open>ErrNoDocuments\<close>, and the two bodies differ, while both answers have status 500.
\<close>

theorem GetPerson_invalid_identifier:
  assumes "ObjectIDFromHex bad = Inl err"
    and "ObjectIDFromHex good = Inr oid" and "oid \<notin> set (map ID coll)"
  shows "(\<forall>fault coll'. GetPerson fault coll' bad = handleError new_response err) \<and>
         GetPerson None coll good = handleError new_response ErrNoDocuments \<and>
         err \<noteq> ErrNoDocuments \<and>
         payload (handleError new_response err) \<noteq> payload (handleError new_response ErrNoDocuments) \<and>
         status (handleError new_response err) = Some 500 \<and>
         status (handleError new_response ErrNoDocuments) = Some 500"
proof -
  from ObjectIDFromHex_Inl [OF assms(1)]
  have kind: "err = ErrInvalidHex \<or> (\<exists>c. err = InvalidByteError c)" .
  then have "err \<noteq> ErrNoDocuments" by auto
  moreover from Error_not_found_differs [OF kind]
  have "payload (handleError new_response err) \<noteq> payload (handleError new_response ErrNoDocuments)"
    by (simp add: handleError_new_response)
  moreover have "\<forall>fault coll'. GetPerson fault coll' bad = handleError new_response err"
    using GetPerson_invalid [OF assms(1)] by simp
  moreover note GetPerson_absent [OF assms(2,3)]
  ultimately show ?thesis by (simp add: handleError_new_response)
qed

text \<open>
  C6 at \<open>not-an-id\<close> and at \<open>000000000000000000000002\<close>, the collection
  holding one record of another identifier.
\<close>

theorem GetPerson_invalid_identifier_witness:
  "ObjectIDFromHex ''not-an-id'' = Inl ErrInvalidHex \<and>
   ObjectIDFromHex ''000000000000000000000002'' = Inr [0, 0, 0, 0, 0, 0, 0, 0, 0, 0, 0, 2] \<and>
   (\<forall>fault coll'. GetPerson fault coll' ''not-an-id'' = handleError new_response ErrInvalidHex) \<and>
   GetPerson None
     [\<lparr>ID = [0, 0, 0, 0, 0, 0, 0, 0, 0, 0, 0, 1], Name = ''Ann'', Age = 30,
       Address = ''1 Main St''\<rparr>]
     ''000000000000000000000002'' = handleError new_response ErrNoDocuments \<and>
   payload (handleError new_response ErrInvalidHex) \<noteq>
     payload (handleError new_response ErrNoDocuments)"
proof -
  let ?oid = "[0, 0, 0, 0, 0, 0, 0, 0, 0, 0, 0, 2] :: ObjectID"
  let ?coll = "[\<lparr>ID = [0, 0, 0, 0, 0, 0, 0, 0, 0, 0, 0, 1], Name = ''Ann'', Age = 30,
                 Address = ''1 Main St''\<rparr>]"
  have h1: "ObjectIDFromHex ''not-an-id'' = Inl ErrInvalidHex"
    by (simp add: ObjectIDFromHex_def)
  have h2: "ObjectIDFromHex ''000000000000000000000002'' = Inr ?oid"
    by (simp add: ObjectIDFromHex_def fromHexChar_def)
  have h3: "?oid \<notin> set (map ID ?coll)" by simp
  from GetPerson_invalid_identifier [OF h1 h2 h3] h1 h2 show ?thesis by simp
qed

text \<open>
  C7. For every collection and identifier string, \<open>DELETE /people/{id}\<close> issued twice
  in a row, the store call not failing, answers 204 with an empty body both times,
  whether or not a record of that identifier exists.
\<close>

theorem DeletePerson_twice:
  "snd (DeletePerson None coll idStr) =
     \<lparr>status = Some 204, content_type = None, payload = NoBody\<rparr> \<and>
   snd (DeletePerson None (fst (DeletePerson None coll idStr)) idStr) =
     \<lparr>status = Some 204, content_type = None, payload = NoBody\<rparr>"
  by (simp add: DeletePerson_ok)

text \<open>
  C8. For every identifier string that is the hexadecimal form of no stored
  identifier, and every body that decodes, \<open>PUT /people/{id}\<close>, the store call not
  failing, matches zero records, which is no error: the answer is 200 with the Person
  of the body, and the collection is as before.
\<close>

theorem UpdatePerson_no_match:
  assumes "Decode_json b = Inr p" and "\<forall>d \<in> set coll. Hex (ID d) \<noteq> idStr"
  shows "UpdateOne None coll (BString idStr) p = Inr (coll, 0) \<and>
         UpdatePerson None coll idStr b =
           (coll, \<lparr>status = Some 200, content_type = Some ''application/json'',
                   payload = JSONPerson p\<rparr>)"
  using assms(1) by (simp add: UpdateOne_def update_first_BString UpdatePerson_ok)

text \<open>
  C8 at \<open>PUT /people/000000000000000000000002\<close>, the collection holding one record
  of another identifier.
\<close>

theorem UpdatePerson_no_match_witness:
  "Decode_json (Object \<lparr>json_id = None, json_name = ''Bob'', json_age = 31,
                         json_address = ''2 Side St''\<rparr>) =
     Inr \<lparr>ID = NilObjectID, Name = ''Bob'', Age = 31, Address = ''2 Side St''\<rparr> \<and>
   Hex [0, 0, 0, 0, 0, 0, 0, 0, 0, 0, 0, 1] \<noteq> ''000000000000000000000002'' \<and>
   UpdatePerson None
     [\<lparr>ID = [0, 0, 0, 0, 0, 0, 0, 0, 0, 0, 0, 1], Name = ''Ann'', Age = 30,
       Address = ''1 Main St''\<rparr>]
     ''000000000000000000000002''
     (Object \<lparr>json_id = None, json_name = ''Bob'', json_age = 31, json_address = ''2 Side St''\<rparr>) =
     ([\<lparr>ID = [0, 0, 0, 0, 0, 0, 0, 0, 0, 0, 0, 1], Name = ''Ann'', Age = 30,
        Address = ''1 Main St''\<rparr>],
      \<lparr>status = Some 200, content_type = Some ''application/json'',
       payload = JSONPerson \<lparr>ID = NilObjectID, Name = ''Bob'', Age = 31,
                              Address = ''2 Side St''\<rparr>\<rparr>)"
proof -
  let ?b = "Object \<lparr>json_id = None, json_name = ''Bob'', json_age = 31,
                     json_address = ''2 Side St''\<rparr>"
  let ?coll = "[\<lparr>ID = [0, 0, 0, 0, 0, 0, 0, 0, 0, 0, 0, 1], Name = ''Ann'', Age = 30,
                 Address = ''1 Main St''\<rparr>]"
  have h1: "Decode_json ?b = Inr \<lparr>ID = NilObjectID, Name = ''Bob'', Age = 31,
                                   Address = ''2 Side St''\<rparr>"
    by (simp add: Decode_json_def)
  have h2: "\<forall>d \<in> set ?coll. Hex (ID d) \<noteq> ''000000000000000000000002''"
    by (simp add: Hex_def EncodeToString_def hex_byte_def hextable_def)
  have h3: "Hex [0, 0, 0, 0, 0, 0, 0, 0, 0, 0, 0, 1] \<noteq> ''000000000000000000000002''"
    by (simp add: Hex_def EncodeToString_def hex_byte_def hextable_def)
  from UpdatePerson_no_match [OF h1 h2] h1 h3 show ?thesis by simp
qed

text \<open>
  C9. \<open>UpdatePerson\<close> and \<open>DeletePerson\<close> pass the path variable to the store as
  it is, a string. For every identifier string, well formed or not, the answer does not
  depend on it: \<open>DELETE\<close> answers 204 and \<open>PUT\<close> with a body that decodes answers
  200 whenever the store call succeeds, and the only failures are the error of the
  store call and, for \<open>PUT\<close>, the error of the JSON decoder; none comes from the
  identifier.
\<close>

theorem Update_Delete_raw_identifier:
  "DeletePerson fault coll idStr =
     (coll, case fault of
              None \<Rightarrow> \<lparr>status = Some 204, content_type = None, payload = NoBody\<rparr>
            | Some msg \<Rightarrow> handleError new_response (DriverError msg)) \<and>
   UpdatePerson fault coll idStr b =
     (coll, case Decode_json b of
              Inl err \<Rightarrow> handleError new_response err
            | Inr p \<Rightarrow>
                (case fault of
                   None \<Rightarrow> \<lparr>status = Some 200, content_type = Some ''application/json'',
                              payload = JSONPerson p\<rparr>
                 | Some msg \<Rightarrow> handleError new_response (DriverError msg))) \<and>
   (\<forall>err. Decode_json b = Inl err \<longrightarrow> (\<exists>msg. err = JSONError msg))"
proof (intro conjI)
  show "DeletePerson fault coll idStr =
     (coll, case fault of
              None \<Rightarrow> \<lparr>status = Some 204, content_type = None, payload = NoBody\<rparr>
            | Some msg \<Rightarrow> handleError new_response (DriverError msg))"
    by (cases fault) (simp_all add: DeletePerson_ok DeletePerson_fault)
next
  show "UpdatePerson fault coll idStr b =
     (coll, case Decode_json b of
              Inl err \<Rightarrow> handleError new_response err
            | Inr p \<Rightarrow>
                (case fault of
                   None \<Rightarrow> \<lparr>status = Some 200, content_type = Some ''application/json'',
                              payload = JSONPerson p\<rparr>
                 | Some msg \<Rightarrow> handleError new_response (DriverError msg)))"
  proof (cases "Decode_json b")
    case (Inl err)
    then show ?thesis by (simp add: UpdatePerson_decode_error)
  next
    case (Inr p)
    then show ?thesis by (cases fault) (simp_all add: UpdatePerson_ok UpdatePerson_fault)
  qed
next
  show "\<forall>err. Decode_json b = Inl err \<longrightarrow> (\<exists>msg. err = JSONError msg)"
    using Decode_json_Inl by blast
qed

text \<open>
  C9 at the identifier \<open>not-an-id\<close>, which \<open>ObjectIDFromHex\<close> rejects.
\<close>

theorem Update_Delete_raw_identifier_witness:
  "ObjectIDFromHex ''not-an-id'' = Inl ErrInvalidHex \<and>
   DeletePerson None
     [\<lparr>ID = [0, 0, 0, 0, 0, 0, 0, 0, 0, 0, 0, 1], Name = ''Ann'', Age = 30,
       Address = ''1 Main St''\<rparr>] ''not-an-id'' =
     ([\<lparr>ID = [0, 0, 0, 0, 0, 0, 0, 0, 0, 0, 0, 1], Name = ''Ann'', Age = 30,
        Address = ''1 Main St''\<rparr>],
      \<lparr>status = Some 204, content_type = None, payload = NoBody\<rparr>) \<and>
   UpdatePerson None
     [\<lparr>ID = [0, 0, 0, 0, 0, 0, 0, 0, 0, 0, 0, 1], Name = ''Ann'', Age = 30,
       Address = ''1 Main St''\<rparr>] ''not-an-id''
     (Object \<lparr>json_id = None, json_name = ''Bob'', json_age = 31, json_address = ''2 Side St''\<rparr>) =
     ([\<lparr>ID = [0, 0, 0, 0, 0, 0, 0, 0, 0, 0, 0, 1], Name = ''Ann'', Age = 30,
        Address = ''1 Main St''\<rparr>],
      \<lparr>status = Some 200, content_type = Some ''application/json'',
       payload = JSONPerson \<lparr>ID = NilObjectID, Name = ''Bob'', Age = 31,
                              Address = ''2 Side St''\<rparr>\<rparr>)"
proof -
  have h: "ObjectIDFromHex ''not-an-id'' = Inl ErrInvalidHex"
    by (simp add: ObjectIDFromHex_def)
  from Update_Delete_raw_identifier [of None
      "[\<lparr>ID = [0, 0, 0, 0, 0, 0, 0, 0, 0, 0, 0, 1], Name = ''Ann'', Age = 30,
         Address = ''1 Main St''\<rparr>]" "''not-an-id''"
      "Object \<lparr>json_id = None, json_name = ''Bob'', json_age = 31,
               json_address = ''2 Side St''\<rparr>"] h
  show ?thesis by (simp add: Decode_json_def)
qed

text \<open>
  C10. \<open>InsertedID\<close> of a successful \<open>InsertOne\<close> of a Person is an ObjectID, the
  one of the Person or the generated one. So the type assertion of line 144 does not
  panic, for any request, and whenever the body decodes and the insert succeeds the
  handler answers 201 with the Person under that identifier.
\<close>

theorem CreatePerson_type_assertion:
  "snd (CreatePerson fault fresh coll b) \<noteq> Panic \<and>
   (\<forall>p coll' v. Decode_json b = Inr p \<and> InsertOne fault fresh coll p = Inr (coll', v) \<longrightarrow>
      (\<exists>oid. v = BObjectID oid \<and>
         CreatePerson fault fresh coll b =
           (coll', Reply \<lparr>status = Some 201, content_type = Some ''application/json'',
                          payload = JSONPerson (p\<lparr>ID := oid\<rparr>)\<rparr>)))"
proof (intro conjI allI impI)
  from CreatePerson_cases [of fault fresh coll b]
  show "snd (CreatePerson fault fresh coll b) \<noteq> Panic" by auto
next
  fix p coll' v
  assume a: "Decode_json b = Inr p \<and> InsertOne fault fresh coll p = Inr (coll', v)"
  then have d: "Decode_json b = Inr p" and i: "InsertOne fault fresh coll p = Inr (coll', v)"
    by simp_all
  from InsertOne_Inr [OF i] obtain oid where v: "v = BObjectID oid" by blast
  from CreatePerson_inserted [OF d i [unfolded v]] v
  show "\<exists>oid. v = BObjectID oid \<and>
         CreatePerson fault fresh coll b =
           (coll', Reply \<lparr>status = Some 201, content_type = Some ''application/json'',
                          payload = JSONPerson (p\<lparr>ID := oid\<rparr>)\<rparr>)"
    by blast
qed

text \<open>
  C10 at a body without \<open>id\<close> on the empty collection.
\<close>

theorem CreatePerson_type_assertion_witness:
  "Decode_json (Object \<lparr>json_id = None, json_name = ''Ann'', json_age = 30,
                         json_address = ''1 Main St''\<rparr>) =
     Inr \<lparr>ID = NilObjectID, Name = ''Ann'', Age = 30, Address = ''1 Main St''\<rparr> \<and>
   InsertOne None [0, 0, 0, 0, 0, 0, 0, 0, 0, 0, 0, 1] []
     \<lparr>ID = NilObjectID, Name = ''Ann'', Age = 30, Address = ''1 Main St''\<rparr> =
     Inr ([\<lparr>ID = [0, 0, 0, 0, 0, 0, 0, 0, 0, 0, 0, 1], Name = ''Ann'', Age = 30,
            Address = ''1 Main St''\<rparr>],
          BObjectID [0, 0, 0, 0, 0, 0, 0, 0, 0, 0, 0, 1]) \<and>
   CreatePerson None [0, 0, 0, 0, 0, 0, 0, 0, 0, 0, 0, 1] []
     (Object \<lparr>json_id = None, json_name = ''Ann'', json_age = 30,
              json_address = ''1 Main St''\<rparr>) =
     ([\<lparr>ID = [0, 0, 0, 0, 0, 0, 0, 0, 0, 0, 0, 1], Name = ''Ann'', Age = 30,
        Address = ''1 Main St''\<rparr>],
      Reply \<lparr>status = Some 201, content_type = Some ''application/json'',
             payload = JSONPerson \<lparr>ID = [0, 0, 0, 0, 0, 0, 0, 0, 0, 0, 0, 1], Name = ''Ann'',
                                    Age = 30, Address = ''1 Main St''\<rparr>\<rparr>)"
proof -
  let ?oid = "[0, 0, 0, 0, 0, 0, 0, 0, 0, 0, 0, 1] :: ObjectID"
  let ?b = "Object \<lparr>json_id = None, json_name = ''Ann'', json_age = 30,
                     json_address = ''1 Main St''\<rparr>"
  let ?p = "\<lparr>ID = NilObjectID, Name = ''Ann'', Age = 30, Address = ''1 Main St''\<rparr>"
  let ?q = "\<lparr>ID = ?oid, Name = ''Ann'', Age = 30, Address = ''1 Main St''\<rparr>"
  have h1: "Decode_json ?b = Inr ?p" by (simp add: Decode_json_def)
  have h2: "InsertOne None ?oid [] ?p = Inr ([?q], BObjectID ?oid)"
    by (simp add: InsertOne_def IsZero_def Let_def)
  from CreatePerson_type_assertion [of None ?oid "[]" ?b] h1 h2
  have "\<exists>oid. BObjectID ?oid = BObjectID oid \<and>
         CreatePerson None ?oid [] ?b =
           ([?q], Reply \<lparr>status = Some 201, content_type = Some ''application/json'',
                         payload = JSONPerson (?p\<lparr>ID := oid\<rparr>)\<rparr>)"
    by blast
  with h1 h2 show ?thesis by simp
qed

end
